theory Spec2Isabelle
  imports Complex_Main
begin

section \<open>Values of the geometry helpers\<close>

text \<open>
  The helpers of \<^verbatim>\<open>src/components/containers/helper-methods.js\<close> compute on
  JavaScript numbers, which are IEEE binary64 values. A number is modelled as a
  \<^typ>\<open>real\<close>: the finite values. NaN and the infinities are outside the model.

  \<^verbatim>\<open>scale\<close> and \<^verbatim>\<open>constrainBox\<close> rebuild a bound from a width, and whether the
  result meets the input again depends on the rounding of each operation; their
  arithmetic is rounded to the nearest double by \<open>roundDouble\<close> below. In the other
  helpers \<^verbatim>\<open>+\<close>, \<^verbatim>\<open>-\<close> and \<^verbatim>\<open>/\<close> are taken as exact.
\<close>

subsection \<open>Rounding to binary64\<close>

text \<open>
  Round to nearest, ties to even, on sign and magnitude. A double has a significand of
  53 bits: for \<open>2^e \<le> \<bar>r\<bar> < 2^(e+1)\<close> the doubles around \<open>r\<close> are the multiples of
  \<open>2^(e-52)\<close>, and below \<open>2^-1022\<close> (the subnormal range) the multiples of \<open>2^-1074\<close>.
  Beyond the largest double the source gets an infinity, which is outside the model.
\<close>

definition roundEven :: "real \<Rightarrow> int" where
  "roundEven r =
     (let f = \<lfloor>r\<rfloor>; d = r - of_int f
      in if d < 1 / 2 then f else if 1 / 2 < d then f + 1
         else if even f then f else f + 1)"

definition ulpExponent :: "real \<Rightarrow> int" where
  "ulpExponent r = max (\<lfloor>log 2 \<bar>r\<bar>\<rfloor> - 52) (- 1074)"

definition roundDouble :: "real \<Rightarrow> real" where
  "roundDouble r =
     sgn r * of_int (roundEven (\<bar>r\<bar> / 2 powr of_int (ulpExponent r)))
       * 2 powr of_int (ulpExponent r)"

text \<open>The doubles: the numbers that rounding leaves as they are.\<close>

definition isDouble :: "real \<Rightarrow> bool" where
  "isDouble r = (roundDouble r = r)"

subsection \<open>Numbers and dates\<close>

text \<open>
  A domain bound is a number or a \<^verbatim>\<open>Date\<close>. A date carries its time value, an integer
  number of milliseconds, and the unary \<^verbatim>\<open>+val\<close> of the source reads it.
\<close>

datatype jsval = Num real | Date int

fun toNumber :: "jsval \<Rightarrow> real" where
  "toNumber (Num n) = n"
| "toNumber (Date t) = of_int t"

fun isDate :: "jsval \<Rightarrow> bool" where
  "isDate (Num n) = False"
| "isDate (Date t) = True"

text \<open>
  \<^verbatim>\<open>new Date(val)\<close>, on a number or on a date: the time value is the number with its
  fraction cut off, towards zero. (A time value beyond \<open>8.64e15\<close> in magnitude gives an
  invalid date, whose time value is NaN: outside the model.)
\<close>

definition truncateToInt :: "real \<Rightarrow> int" where
  "truncateToInt r = (if 0 \<le> r then \<lfloor>r\<rfloor> else \<lceil>r\<rceil>)"

definition newDate :: "jsval \<Rightarrow> jsval" where
  "newDate v = Date (truncateToInt (toNumber v))"

text \<open>A domain is the two-element array \<^verbatim>\<open>[from, to]\<close>.\<close>

type_synonym domain = "jsval \<times> jsval"

text \<open>
  The objects \<^verbatim>\<open>{x, y}\<close> of the source: a point (two numbers), a pair of domains, the
  pixel coordinates of a pair of domains.
\<close>

record 'a xy =
  x :: 'a
  y :: 'a

record box =
  x1 :: real
  x2 :: real
  y1 :: real
  y2 :: real

section \<open>withinBounds\<close>

text \<open>
  \<^verbatim>\<open>padding = padding ? padding / 2 : 0\<close>: an absent padding (\<open>None\<close>) and the padding
  \<open>0\<close> are both falsy.
\<close>

definition halfPadding :: "real option \<Rightarrow> real" where
  "halfPadding padding =
     (case padding of None \<Rightarrow> 0 | Some p \<Rightarrow> if p \<noteq> 0 then p / 2 else 0)"

definition withinBounds :: "real xy \<Rightarrow> box \<Rightarrow> real option \<Rightarrow> bool" where
  "withinBounds point bounds padding =
     (let pad = halfPadding padding in
        x point + pad \<ge> min (x1 bounds) (x2 bounds) \<and>
        x point - pad \<le> max (x1 bounds) (x2 bounds) \<and>
        y point + pad \<ge> min (y1 bounds) (y2 bounds) \<and>
        y point - pad \<le> max (y1 bounds) (y2 bounds))"

section \<open>constrainBox\<close>


section \<open>Helpers of victory-core\<close>

text \<open>
  Modelled from the spec: \<^verbatim>\<open>Collection.containsDates\<close>, \<^verbatim>\<open>Collection.getMaxValue\<close> and
  \<^verbatim>\<open>Collection.getMinValue\<close> are imported from the package victory-core and are not
  part of this repository. The spec has \<^verbatim>\<open>scale\<close> clamp each new bound to the corresponding bound of
  the original domain, and has a result re-expressed as dates when a domain that went into
  it contains date values. Both call sites pass a two-element array literal, modelled
  as its two elements.
\<close>

definition containsDates :: "domain \<Rightarrow> bool" where
  "containsDates d = (isDate (fst d) \<or> isDate (snd d))"

definition getMaxValue :: "jsval \<Rightarrow> jsval \<Rightarrow> jsval" where
  "getMaxValue a b =
     (if containsDates (a, b) then newDate (Num (max (toNumber a) (toNumber b)))
      else Num (max (toNumber a) (toNumber b)))"

definition getMinValue :: "jsval \<Rightarrow> jsval \<Rightarrow> jsval" where
  "getMinValue a b =
     (if containsDates (a, b) then newDate (Num (min (toNumber a) (toNumber b)))
      else Num (min (toNumber a) (toNumber b)))"

section \<open>scale and pan\<close>

definition scale :: "domain \<Rightarrow> domain \<Rightarrow> real \<Rightarrow> domain" where
  "scale currentDomain originalDomain factor =
     (let fromBound = fst originalDomain; toBound = snd originalDomain;
          from = fst currentDomain; to = snd currentDomain;
          range = \<bar>roundDouble (toNumber from - toNumber to)\<bar>;
          midpoint = roundDouble (toNumber from + roundDouble (range / 2));
          newRange = roundDouble (roundDouble (range * factor) / 2)
      in (getMaxValue (Num (roundDouble (midpoint - newRange))) fromBound,
          getMinValue (Num (roundDouble (midpoint + newRange))) toBound))"

definition pan :: "domain \<Rightarrow> domain \<Rightarrow> real \<Rightarrow> domain" where
  "pan currentDomain originalDomain delta =
     (let fromCurrent = toNumber (fst currentDomain);
          toCurrent = toNumber (snd currentDomain);
          fromOriginal = toNumber (fst originalDomain);
          toOriginal = toNumber (snd originalDomain);
          lowerBound = fromCurrent + delta;
          upperBound = toCurrent + delta;
          newDomain =
            (if lowerBound > fromOriginal \<and> upperBound < toOriginal
               then (Num lowerBound, Num upperBound)
             else if lowerBound < fromOriginal
               then (let dx = toCurrent - fromCurrent
                     in (Num fromOriginal, Num (fromOriginal + dx)))
             else if upperBound > toOriginal
               then (let dx = toCurrent - fromCurrent
                     in (Num (toOriginal - dx), Num toOriginal))
             else currentDomain)
      in if containsDates currentDomain \<or> containsDates originalDomain
         then (newDate (fst newDomain), newDate (snd newDomain))
         else newDomain)"

section \<open>Props, getOriginalDomain and getDomainBox\<close>

text \<open>
  An axis scale of the chart; \<^verbatim>\<open>getOriginalDomain\<close> calls its \<^verbatim>\<open>domain()\<close>. Reading
  \<^verbatim>\<open>.domain\<close> of a member that is absent throws a TypeError.
\<close>

record axisScale =
  domainOf :: domain

datatype error = TypeError

definition getOriginalDomain :: "(axisScale option, 'm) xy_scheme \<Rightarrow> error + domain xy" where
  "getOriginalDomain scl =
     (case x scl of
        None \<Rightarrow> Inl TypeError
      | Some sx \<Rightarrow>
          (case y scl of
             None \<Rightarrow> Inl TypeError
           | Some sy \<Rightarrow> Inr \<lparr>x = domainOf sx, y = domainOf sy\<rparr>))"

text \<open>
  The props object of a container. Its members \<^verbatim>\<open>x\<close> and \<^verbatim>\<open>y\<close> are the ones
  \<^verbatim>\<open>getDomainBox\<close> hands to \<^verbatim>\<open>getOriginalDomain\<close> (it passes \<^verbatim>\<open>props\<close>, not
  \<^verbatim>\<open>props.scale\<close>). The explicit box \<^verbatim>\<open>x1, x2, y1, y2\<close> is present with its four
  numbers or absent (\<open>None\<close>, every edge undefined). An absent \<^verbatim>\<open>startX\<close>,
  \<^verbatim>\<open>startY\<close>, \<^verbatim>\<open>dimension\<close> or domain is \<open>None\<close>. The type \<open>'s\<close> is the scale
  object that victory-core's \<^verbatim>\<open>Selection.getDomainCoordinates\<close> reads.
\<close>

record 's props = "axisScale option xy" +
  dimension :: "string option"
  scaleProp :: 's
  domain :: "domain xy option"
  fullDomain :: "domain xy option"
  selectedDomain :: "domain xy option"
  startX :: "real option"
  startY :: "real option"
  handleWidth :: real
  explicitBox :: "box option"

text \<open>
  \<^verbatim>\<open>Selection.getDomainCoordinates\<close> belongs to victory-core; \<^verbatim>\<open>getDomainBox\<close> and
  \<^verbatim>\<open>panBox\<close> take it as the parameter \<open>getDomainCoordinates\<close>. \<^verbatim>\<open>Math.min(...c)\<close> and
  \<^verbatim>\<open>Math.max(...c)\<close> spread a two-element coordinate array.
\<close>

definition getDomainBox ::
  "('s \<Rightarrow> domain xy \<Rightarrow> (real \<times> real) xy) \<Rightarrow> 's props \<Rightarrow> domain xy option \<Rightarrow>
     domain xy option \<Rightarrow> error + box" where
  "getDomainBox getDomainCoordinates prps fullDom selectedDom =
     (case (case fullDom of
              Some f \<Rightarrow> Inr f
            | None \<Rightarrow> (case domain prps of
                         Some d \<Rightarrow> Inr d
                       | None \<Rightarrow> getOriginalDomain prps)) of
        Inl e \<Rightarrow> Inl e
      | Inr full \<Rightarrow>
          (let selected = (case selectedDom of Some s \<Rightarrow> s | None \<Rightarrow> full);
               fullCoordinates = getDomainCoordinates (scaleProp prps) full;
               selectedCoordinates = getDomainCoordinates (scaleProp prps) selected
           in Inr
             \<lparr> x1 = (if dimension prps \<noteq> Some ''y''
                      then min (fst (x selectedCoordinates)) (snd (x selectedCoordinates))
                      else min (fst (x fullCoordinates)) (snd (x fullCoordinates))),
               x2 = (if dimension prps \<noteq> Some ''y''
                      then max (fst (x selectedCoordinates)) (snd (x selectedCoordinates))
                      else max (fst (x fullCoordinates)) (snd (x fullCoordinates))),
               y1 = (if dimension prps \<noteq> Some ''x''
                      then min (fst (y selectedCoordinates)) (snd (y selectedCoordinates))
                      else min (fst (y fullCoordinates)) (snd (y fullCoordinates))),
               y2 = (if dimension prps \<noteq> Some ''x''
                      then max (fst (y selectedCoordinates)) (snd (y selectedCoordinates))
                      else max (fst (y fullCoordinates)) (snd (y fullCoordinates))) \<rparr>))"

section \<open>Handles\<close>

datatype handle = Top | Bottom | Left | Right





section \<open>getResizeMutation\<close>

text \<open>
  The result is built by \<^verbatim>\<open>assign\<close> from the empty object, so it is an object that may
  lack fields: a map from field names to numbers. \<^verbatim>\<open>assign(memo, src)\<close> writes every
  field of \<open>src\<close> over \<open>memo\<close>.
\<close>

datatype field = X1 | X2 | Y1 | Y2

type_synonym partialBox = "field \<rightharpoonup> real"

definition assign :: "partialBox \<Rightarrow> partialBox \<Rightarrow> partialBox" where
  "assign memo src = memo ++ src"

fun mutations :: "box \<Rightarrow> handle \<Rightarrow> partialBox" where
  "mutations b Left =
     [X1 \<mapsto> max (x1 b) (x2 b), X2 \<mapsto> min (x1 b) (x2 b), Y1 \<mapsto> y1 b, Y2 \<mapsto> y2 b]"
| "mutations b Right =
     [X1 \<mapsto> min (x1 b) (x2 b), X2 \<mapsto> max (x1 b) (x2 b), Y1 \<mapsto> y1 b, Y2 \<mapsto> y2 b]"
| "mutations b Top =
     [Y1 \<mapsto> max (y1 b) (y2 b), Y2 \<mapsto> min (y1 b) (y2 b), X1 \<mapsto> x1 b, X2 \<mapsto> x2 b]"
| "mutations b Bottom =
     [Y1 \<mapsto> min (y1 b) (y2 b), Y2 \<mapsto> max (y1 b) (y2 b), X1 \<mapsto> x1 b, X2 \<mapsto> x2 b]"

definition getResizeMutation :: "box \<Rightarrow> handle list \<Rightarrow> partialBox" where
  "getResizeMutation b handles =
     foldl (\<lambda>memo current. assign memo (mutations b current)) Map.empty handles"

section \<open>panBox\<close>

text \<open>
  \<^verbatim>\<open>props.x1 ? props : this.getDomainBox(...)\<close>: an absent \<^verbatim>\<open>x1\<close> and the edge
  \<open>x1 = 0\<close> are both falsy. \<^verbatim>\<open>startX ? startX - x : 0\<close> likewise.
\<close>

definition startDelta :: "real option \<Rightarrow> real \<Rightarrow> real" where
  "startDelta start c =
     (case start of None \<Rightarrow> 0 | Some s \<Rightarrow> if s \<noteq> 0 then s - c else 0)"

definition panBox ::
  "('s \<Rightarrow> domain xy \<Rightarrow> (real \<times> real) xy) \<Rightarrow> 's props \<Rightarrow> real xy \<Rightarrow> error + box" where
  "panBox getDomainCoordinates prps point =
     (case (case explicitBox prps of
              Some b \<Rightarrow> if x1 b \<noteq> 0 then Inr b
                        else getDomainBox getDomainCoordinates prps
                               (fullDomain prps) (selectedDomain prps)
            | None \<Rightarrow> getDomainBox getDomainCoordinates prps
                        (fullDomain prps) (selectedDomain prps)) of
        Inl e \<Rightarrow> Inl e
      | Inr b \<Rightarrow>
          (let delta = \<lparr>x = startDelta (startX prps) (x point),
                        y = startDelta (startY prps) (y point)\<rparr>
           in Inr
             \<lparr> x1 = (if dimension prps \<noteq> Some ''y''
                      then min (x1 b) (x2 b) - x delta else min (x1 b) (x2 b)),
               x2 = (if dimension prps \<noteq> Some ''y''
                      then max (x1 b) (x2 b) - x delta else max (x1 b) (x2 b)),
               y1 = (if dimension prps \<noteq> Some ''x''
                      then min (y1 b) (y2 b) - y delta else min (y1 b) (y2 b)),
               y2 = (if dimension prps \<noteq> Some ''x''
                      then max (y1 b) (y2 b) - y delta else max (y1 b) (y2 b)) \<rparr>))"

section \<open>Properties of the rounding\<close>

text \<open>
  Rounding commutes with negation and leaves the integers below \<open>2^53\<close> in magnitude
  as they are. Given the binade of a number, \<open>roundDouble_eval\<close> computes its rounding.
\<close>

lemma roundEven_of_int [simp]: "roundEven (of_int k) = k"
  by (simp add: roundEven_def)

lemma ulpExponent_uminus [simp]: "ulpExponent (- r) = ulpExponent r"
  by (simp add: ulpExponent_def)

lemma roundDouble_0 [simp]: "roundDouble 0 = 0"
  by (simp add: roundDouble_def)

lemma roundDouble_uminus: "roundDouble (- r) = - roundDouble r"
  by (simp add: roundDouble_def sgn_minus)

lemma isDouble_uminus [simp]: "isDouble (- r) = isDouble r"
  by (simp add: isDouble_def roundDouble_uminus)


lemma roundDouble_int:
  assumes "r \<in> \<int>" and "\<bar>r\<bar> < 2 ^ 53"
  shows "roundDouble r = r"
proof (cases "r = 0")
  case True
  then show ?thesis by simp
next
  case False
  from assms(1) obtain n :: int where n: "r = of_int n" by (auto elim: Ints_cases)
  with False have n1: "1 \<le> \<bar>r\<bar>" by simp
  define e where "e = \<lfloor>log 2 \<bar>r\<bar>\<rfloor>"
  have e0: "0 \<le> e" unfolding e_def using n1 by simp
  have "log 2 \<bar>r\<bar> < 53"
    using assms(2) n1 by (simp add: log_less_iff)
  then have e52: "e \<le> 52" unfolding e_def by linarith
  have u: "ulpExponent r = e - 52"
    using e0 by (simp add: ulpExponent_def e_def)
  have p: "(2::real) powr of_int (e - 52) = 1 / 2 ^ nat (52 - e)"
  proof -
    have "e - 52 = - int (nat (52 - e))" using e52 by simp
    then have "(2::real) powr of_int (e - 52) = 2 powr (- real (nat (52 - e)))" by simp
    also have "\<dots> = 1 / 2 ^ nat (52 - e)"
      by (simp add: powr_minus powr_realpow inverse_eq_divide)
    finally show ?thesis .
  qed
  have "\<bar>r\<bar> / 2 powr of_int (e - 52) = of_int (\<bar>n\<bar> * 2 ^ nat (52 - e))"
    by (simp only: p) (simp add: n)
  then have "roundEven (\<bar>r\<bar> / 2 powr of_int (ulpExponent r)) = \<bar>n\<bar> * 2 ^ nat (52 - e)"
    by (simp only: u roundEven_of_int)
  then have "roundDouble r = sgn r * of_int (\<bar>n\<bar> * 2 ^ nat (52 - e)) * (1 / 2 ^ nat (52 - e))"
    by (simp only: roundDouble_def u p)
  also have "\<dots> = sgn r * \<bar>r\<bar>" by (simp add: n)
  also have "\<dots> = r" by (simp add: sgn_if)
  finally show ?thesis .
qed


lemma truncateToInt_ge: "of_int t \<le> r \<Longrightarrow> t \<le> truncateToInt r"
  by (auto simp: truncateToInt_def le_floor_iff le_ceiling_iff)

lemma truncateToInt_le: "r \<le> of_int t \<Longrightarrow> truncateToInt r \<le> t"
  by (auto simp: truncateToInt_def floor_le_iff ceiling_le_iff)

section \<open>Properties of withinBounds\<close>

text \<open>
  Claim C9. \<^verbatim>\<open>withinBounds\<close> is reflexive: whatever the order of the corners of a box,
  each of its four corner points lies within the box with padding \<open>0\<close>; the comparisons
  are \<open>\<ge>\<close> and \<open>\<le>\<close>, so the boundary is included.
\<close>

theorem withinBounds_corners:
  "withinBounds \<lparr>x = x1 b, y = y1 b\<rparr> b (Some 0) \<and>
   withinBounds \<lparr>x = x1 b, y = y2 b\<rparr> b (Some 0) \<and>
   withinBounds \<lparr>x = x2 b, y = y1 b\<rparr> b (Some 0) \<and>
   withinBounds \<lparr>x = x2 b, y = y2 b\<rparr> b (Some 0)"
  by (simp add: withinBounds_def halfPadding_def)

section \<open>Properties of constrainBox\<close>








section \<open>Properties of pan\<close>

text \<open>
  Claim C2 on the domain \<open>[10, 20]\<close> moved by \<open>5\<close> within \<open>[0, 25]\<close>: the translated
  domain \<open>[15, 25]\<close> lies within the original one, bounds included, and the claim has
  \<^verbatim>\<open>pan\<close> return it. The code returns the current domain \<open>[10, 20]\<close>, untranslated: the
  first test of \<^verbatim>\<open>pan\<close> is strict (\<^verbatim>\<open>></\<close> and \<^verbatim>\<open><\<close>), neither clamp applies to a domain
  that touches a bound without leaving, and the last branch is taken.
\<close>

theorem pan_touching_bound:
  "(0::real) \<le> 10 + 5 \<and> (20::real) + 5 \<le> 25 \<and>
   pan (Num 10, Num 20) (Num 0, Num 25) 5 = (Num 10, Num 20) \<and>
   pan (Num 10, Num 20) (Num 0, Num 25) 5 \<noteq> (Num (10 + 5), Num (20 + 5))"
  by (simp add: pan_def containsDates_def)



section \<open>Properties of scale\<close>

text \<open>
  Claim C5. For every current domain, every ordered original domain \<open>[oFrom, oTo]\<close> and
  every factor \<open>f > 0\<close>, the lower bound that \<^verbatim>\<open>scale\<close> returns is at least \<open>oFrom\<close> and
  the upper bound at most \<open>oTo\<close>; so the interval between the returned bounds is a subset
  of the interval of the original domain. (Bounds are read as numbers, dates by their
  time value.)
\<close>

theorem scale_within:
  assumes "toNumber (fst orig) \<le> toNumber (snd orig)" and "0 < f"
  shows "toNumber (fst orig) \<le> toNumber (fst (scale cur orig f)) \<and>
         toNumber (snd (scale cur orig f)) \<le> toNumber (snd orig) \<and>
         {toNumber (fst (scale cur orig f)) .. toNumber (snd (scale cur orig f))}
           \<subseteq> {toNumber (fst orig) .. toNumber (snd orig)}"
proof -
  have lower: "toNumber b \<le> toNumber (getMaxValue (Num m) b)" for m b
    by (cases b) (simp_all add: getMaxValue_def containsDates_def newDate_def truncateToInt_ge)
  have upper: "toNumber (getMinValue (Num m) b) \<le> toNumber b" for m b
    by (cases b) (simp_all add: getMinValue_def containsDates_def newDate_def truncateToInt_le)
  show ?thesis
    by (simp add: scale_def Let_def lower upper)
qed

theorem scale_within_witness:
  "toNumber (fst (Num 0, Num 100)) \<le> toNumber (snd (Num 0, Num 100)) \<and> (0::real) < 3 \<and>
   (0::real) \<le> toNumber (fst (scale (Num 40, Num 60) (Num 0, Num 100) 3)) \<and>
   toNumber (snd (scale (Num 40, Num 60) (Num 0, Num 100) 3)) \<le> 100 \<and>
   scale (Num 40, Num 60) (Num 0, Num 100) 3 = (Num 20, Num 80)"
  using scale_within [where orig = "(Num 0, Num 100)" and f = 3 and cur = "(Num 40, Num 60)"]
  by (simp add: scale_def getMaxValue_def getMinValue_def containsDates_def roundDouble_int)














section \<open>Properties of getActiveHandles\<close>











section \<open>Properties of getResizeMutation\<close>

text \<open>
  Every mutation carries all four fields: the two edges of its own axis, normalised, and
  the two edges of the other axis as the box has them. So \<^verbatim>\<open>assign\<close> replaces the whole
  of \<open>memo\<close>, and the reduction returns the mutation of the last handle.
\<close>

lemma mutations_fields:
  "\<exists>a b c d. mutations bx h X1 = Some a \<and> mutations bx h X2 = Some b \<and>
     mutations bx h Y1 = Some c \<and> mutations bx h Y2 = Some d \<and>
     min a b = min (x1 bx) (x2 bx) \<and> max a b = max (x1 bx) (x2 bx) \<and>
     min c d = min (y1 bx) (y2 bx) \<and> max c d = max (y1 bx) (y2 bx)"
  by (cases h) simp_all

lemma assign_mutations: "assign memo (mutations bx h) = mutations bx h"
proof
  fix k
  show "assign memo (mutations bx h) k = mutations bx h k"
    by (cases h; cases k) (simp_all add: assign_def map_add_def)
qed

lemma getResizeMutation_last: "getResizeMutation bx (hs @ [h]) = mutations bx h"
  by (simp add: getResizeMutation_def assign_mutations)

text \<open>
  Claim C3 on the box \<open>{x1: 0, x2: 10, y1: 0, y2: 10}\<close> with the handles
  \<open>["top", "left"]\<close>: the left handle's update is there (\<open>x1 = 10\<close>, \<open>x2 = 0\<close>), the top
  handle's is not. The claim has \<open>y1 = max(y1, y2) = 10\<close> and \<open>y2 = min(y1, y2) = 0\<close>; the
  code returns \<open>y1 = 0\<close> and \<open>y2 = 10\<close>, the edges of the box, which the record of the
  left handle carries and writes over the update of the top handle.
\<close>

theorem getResizeMutation_top_left:
  "getResizeMutation \<lparr>x1 = 0, x2 = 10, y1 = 0, y2 = 10\<rparr> [Top, Left] X1 = Some 10 \<and>
   getResizeMutation \<lparr>x1 = 0, x2 = 10, y1 = 0, y2 = 10\<rparr> [Top, Left] X2 = Some 0 \<and>
   getResizeMutation \<lparr>x1 = 0, x2 = 10, y1 = 0, y2 = 10\<rparr> [Top, Left] Y1 = Some 0 \<and>
   getResizeMutation \<lparr>x1 = 0, x2 = 10, y1 = 0, y2 = 10\<rparr> [Top, Left] Y2 = Some 10"
  by (simp add: getResizeMutation_def assign_def)

text \<open>
  Claim C10. For every box and every non-empty list of handle names, the object that
  \<^verbatim>\<open>getResizeMutation\<close> returns has the four fields, with the extent and position of the
  box on both axes: \<open>min(x1', x2') = min(x1, x2)\<close>, \<open>max(x1', x2') = max(x1, x2)\<close>, and the
  same for y.
\<close>

theorem getResizeMutation_extent:
  assumes "handles \<noteq> []"
  shows "\<exists>a b c d.
           getResizeMutation bx handles X1 = Some a \<and> getResizeMutation bx handles X2 = Some b \<and>
           getResizeMutation bx handles Y1 = Some c \<and> getResizeMutation bx handles Y2 = Some d \<and>
           min a b = min (x1 bx) (x2 bx) \<and> max a b = max (x1 bx) (x2 bx) \<and>
           min c d = min (y1 bx) (y2 bx) \<and> max c d = max (y1 bx) (y2 bx)"
proof -
  from assms obtain hs h where hs: "handles = hs @ [h]"
    by (cases handles rule: rev_cases) auto
  show ?thesis
    unfolding hs getResizeMutation_last by (rule mutations_fields)
qed

theorem getResizeMutation_extent_witness:
  "[Bottom, Right] \<noteq> [] \<and>
   (\<exists>a b c d.
      getResizeMutation \<lparr>x1 = 7, x2 = 3, y1 = 8, y2 = 2\<rparr> [Bottom, Right] X1 = Some a \<and>
      getResizeMutation \<lparr>x1 = 7, x2 = 3, y1 = 8, y2 = 2\<rparr> [Bottom, Right] X2 = Some b \<and>
      getResizeMutation \<lparr>x1 = 7, x2 = 3, y1 = 8, y2 = 2\<rparr> [Bottom, Right] Y1 = Some c \<and>
      getResizeMutation \<lparr>x1 = 7, x2 = 3, y1 = 8, y2 = 2\<rparr> [Bottom, Right] Y2 = Some d \<and>
      min a b = (3::real) \<and> max a b = 7 \<and> min c d = (2::real) \<and> max c d = 8)"
  using getResizeMutation_extent [of "[Bottom, Right]" "\<lparr>x1 = 7, x2 = 3, y1 = 8, y2 = 2\<rparr>"]
  by simp

section \<open>Properties of panBox\<close>

text \<open>
  Claim C4, as stated, fails on a box whose excluded axis is inverted: \<^verbatim>\<open>panBox\<close>
  returns the edges of every axis as \<^verbatim>\<open>Math.min\<close> and \<^verbatim>\<open>Math.max\<close> of the two, so with
  \<open>dimension = "x"\<close> the box \<open>y1 = 10, y2 = 5\<close> comes back with \<open>y1 = 5, y2 = 10\<close>.
\<close>

theorem panBox_excluded_axis_counterexample:
  "panBox (\<lambda>s d. \<lparr>x = (0, 0), y = (0, 0)\<rparr>)
     \<lparr>x = None, y = None, dimension = Some ''x'', scaleProp = (), domain = None,
      fullDomain = None, selectedDomain = None, startX = Some 1, startY = Some 1,
      handleWidth = 2, explicitBox = Some \<lparr>x1 = 1, x2 = 2, y1 = 10, y2 = 5\<rparr>\<rparr>
     \<lparr>x = 0, y = 0\<rparr>
   = Inr \<lparr>x1 = 0, x2 = 1, y1 = 5, y2 = 10\<rparr> \<and>
   y1 \<lparr>x1 = 0, x2 = 1, y1 = 5, y2 = 10 :: real\<rparr> \<noteq> y1 \<lparr>x1 = 1, x2 = 2, y1 = 10, y2 = 5 :: real\<rparr>"
  by (simp add: panBox_def startDelta_def)

text \<open>
  Claim C4, amended. For every props record carrying an explicit box whose \<open>x1\<close> is not
  \<open>0\<close>, and every pointer point: with \<open>dimension = "x"\<close>, \<^verbatim>\<open>panBox\<close> returns a box with
  \<open>y1 = min(y1, y2)\<close> and \<open>y2 = max(y1, y2)\<close> of the input box, so the excluded axis is
  not translated and its edges come back in ascending order (unchanged when
  \<open>y1 \<le> y2\<close>); symmetrically for \<open>dimension = "y"\<close> and the x edges.
\<close>

theorem panBox_excluded_axis:
  assumes "explicitBox prps = Some b" and "x1 b \<noteq> 0"
  shows "(dimension prps = Some ''x'' \<longrightarrow>
            (\<exists>r. panBox g prps pt = Inr r \<and>
                 y1 r = min (y1 b) (y2 b) \<and> y2 r = max (y1 b) (y2 b))) \<and>
         (dimension prps = Some ''y'' \<longrightarrow>
            (\<exists>r. panBox g prps pt = Inr r \<and>
                 x1 r = min (x1 b) (x2 b) \<and> x2 r = max (x1 b) (x2 b)))"
  using assms by (simp add: panBox_def Let_def)

theorem panBox_excluded_axis_witness:
  "explicitBox
     \<lparr>x = None, y = None, dimension = Some ''x'', scaleProp = (), domain = None,
      fullDomain = None, selectedDomain = None, startX = Some 4, startY = Some 4,
      handleWidth = 2, explicitBox = Some \<lparr>x1 = 3, x2 = 8, y1 = 2, y2 = 6\<rparr>\<rparr>
     = Some \<lparr>x1 = 3, x2 = 8, y1 = 2, y2 = 6\<rparr> \<and>
   x1 \<lparr>x1 = 3, x2 = 8, y1 = 2, y2 = 6 :: real\<rparr> \<noteq> 0 \<and>
   panBox (\<lambda>s d. \<lparr>x = (0, 0), y = (0, 0)\<rparr>)
     \<lparr>x = None, y = None, dimension = Some ''x'', scaleProp = (), domain = None,
      fullDomain = None, selectedDomain = None, startX = Some 4, startY = Some 4,
      handleWidth = 2, explicitBox = Some \<lparr>x1 = 3, x2 = 8, y1 = 2, y2 = 6\<rparr>\<rparr>
     \<lparr>x = 1, y = 1\<rparr>
   = Inr \<lparr>x1 = 0, x2 = 5, y1 = 2, y2 = 6\<rparr> \<and>
   panBox (\<lambda>s d. \<lparr>x = (0, 0), y = (0, 0)\<rparr>)
     \<lparr>x = None, y = None, dimension = Some ''y'', scaleProp = (), domain = None,
      fullDomain = None, selectedDomain = None, startX = Some 4, startY = Some 4,
      handleWidth = 2, explicitBox = Some \<lparr>x1 = 3, x2 = 8, y1 = 2, y2 = 6\<rparr>\<rparr>
     \<lparr>x = 1, y = 1\<rparr>
   = Inr \<lparr>x1 = 3, x2 = 8, y1 = - 1, y2 = 3\<rparr>"
  using panBox_excluded_axis
    [where prps = "\<lparr>x = None, y = None, dimension = Some ''x'', scaleProp = (), domain = None,
        fullDomain = None, selectedDomain = None, startX = Some 4, startY = Some 4,
        handleWidth = 2, explicitBox = Some \<lparr>x1 = 3, x2 = 8, y1 = 2, y2 = 6\<rparr>\<rparr>"
      and b = "\<lparr>x1 = 3, x2 = 8, y1 = 2, y2 = 6\<rparr>"
      and g = "\<lambda>s d. \<lparr>x = (0, 0), y = (0, 0)\<rparr>" and pt = "\<lparr>x = 1, y = 1\<rparr>"]
    panBox_excluded_axis
    [where prps = "\<lparr>x = None, y = None, dimension = Some ''y'', scaleProp = (), domain = None,
        fullDomain = None, selectedDomain = None, startX = Some 4, startY = Some 4,
        handleWidth = 2, explicitBox = Some \<lparr>x1 = 3, x2 = 8, y1 = 2, y2 = 6\<rparr>\<rparr>"
      and b = "\<lparr>x1 = 3, x2 = 8, y1 = 2, y2 = 6\<rparr>"
      and g = "\<lambda>s d. \<lparr>x = (0, 0), y = (0, 0)\<rparr>" and pt = "\<lparr>x = 1, y = 1\<rparr>"]
  by (simp add: panBox_def startDelta_def)

text \<open>
  An explicit box whose \<open>x1\<close> is \<open>0\<close> fails the test \<^verbatim>\<open>props.x1 ?\<close> and is not read:
  \<^verbatim>\<open>panBox\<close> then works on the box of \<^verbatim>\<open>getDomainBox\<close>, as for props without a box.
\<close>

lemma panBox_falsy_x1:
  assumes "explicitBox prps = Some b" and "x1 b = 0"
  shows "panBox g prps pt = panBox g (prps\<lparr>explicitBox := None\<rparr>) pt"
  using assms
  by (simp add: panBox_def getDomainBox_def getOriginalDomain_def
        cong: option.case_cong sum.case_cong)


end
